theory Spec2Isabelle
  imports Main
begin

section \<open>JavaScript containers\<close>

text \<open>
  A JavaScript \<open>Map\<close> keeps its entries in insertion order; \<open>set\<close> on a key that is
  already present replaces the value where the entry stands, \<open>get\<close> on a missing key
  gives \<open>undefined\<close>, \<open>values()\<close> walks the entries in order. The registries of the
  client (\<open>commands\<close>, \<open>modals\<close>, \<open>contextMenus.User\<close>, \<open>contextMenus.Message\<close>) and
  the \<open>subcommands\<close> / \<open>subcommandGroups\<close> of a definition are such maps, so they are
  association lists here: \<open>login\<close> serialises \<open>commands.values()\<close> in that order.
\<close>

type_synonym ('k, 'v) js_map = "('k \<times> 'v) list"

fun map_get :: "('k, 'v) js_map \<Rightarrow> 'k \<Rightarrow> 'v option" where
  "map_get [] k = None"
| "map_get ((k', v) # m) k = (if k' = k then Some v else map_get m k)"

fun map_set :: "'k \<Rightarrow> 'v \<Rightarrow> ('k, 'v) js_map \<Rightarrow> ('k, 'v) js_map" where
  "map_set k v [] = [(k, v)]"
| "map_set k v ((k', v') # m) = (if k' = k then (k, v) # m else (k', v') # map_set k v m)"

definition map_values :: "('k, 'v) js_map \<Rightarrow> 'v list" where
  "map_values m = map snd m"

text \<open>
  \<open>args[n]\<close> on the array \<open>customId.split("-")\<close>: \<open>undefined\<close> past the end. A \<open>Map\<close>
  with string keys has no entry for \<open>undefined\<close>; a plain object is indexed by the
  string \<open>"undefined"\<close> then. Only an object's own properties are modelled (the members
  inherited from \<open>Object.prototype\<close> are not).
\<close>

definition at :: "'a list \<Rightarrow> nat \<Rightarrow> 'a option" where
  "at xs n = (if n < length xs then Some (xs ! n) else None)"

definition map_get_arg :: "(string, 'v) js_map \<Rightarrow> string option \<Rightarrow> 'v option" where
  "map_get_arg m k = (case k of None \<Rightarrow> None | Some s \<Rightarrow> map_get m s)"

definition prop_get :: "(string, 'v) js_map \<Rightarrow> string option \<Rightarrow> 'v option" where
  "prop_get obj k = (case k of None \<Rightarrow> map_get obj ''undefined'' | Some s \<Rightarrow> map_get obj s)"

text \<open>\<open>m?.get(k)\<close> on a map that may be \<open>undefined\<close>.\<close>

definition opt_get :: "(string, 'v) js_map option \<Rightarrow> string option \<Rightarrow> 'v option" where
  "opt_get m k = (case m of None \<Rightarrow> None | Some entries \<Rightarrow> map_get_arg entries k)"

text \<open>\<open>!s\<close> on a value that is a string or \<open>undefined\<close>.\<close>

definition falsy :: "string option \<Rightarrow> bool" where
  "falsy s = (case s of None \<Rightarrow> True | Some t \<Rightarrow> t = [])"

text \<open>\<open>String.prototype.split\<close> on a one-character separator: never an empty array.\<close>

fun split :: "char \<Rightarrow> string \<Rightarrow> string list" where
  "split d [] = [[]]"
| "split d (c # cs) =
     (if c = d then [] # split d cs
      else (case split d cs of [] \<Rightarrow> [[c]] | w # ws \<Rightarrow> (c # w) # ws))"

section \<open>JSON values\<close>

text \<open>
  What a builder's \<open>toJSON()\<close> returns, as \<open>JSON.stringify\<close> sees it: properties whose
  value is \<open>undefined\<close> are already left out. Numbers are the integers of the platform's
  payloads, of magnitude below \<open>10^21\<close> (from there on the runtime writes an exponent, and
  fractions are not represented); strings are sequences of code units below 256.
\<close>

datatype json =
    JNull
  | JBool bool
  | JNumber int
  | JString string
  | JArray "json list"
  | JObject "(string \<times> json) list"

section \<open>Definitions (src/src/index.ts, lines 17-71)\<close>

text \<open>
  A listener is a function the bot's author supplies; the model keeps it abstract (type
  \<open>'h\<close>). \<open>PermissionsBitField\<close> is identified with its bitfield. The builders are the
  SDK's: the model keeps the name, the default member permissions the loaders set, and
  the rest of the schema as the JSON it was built with.
\<close>

record builder =
  name :: string
  default_member_permissions :: "nat option"
  schema :: json


record 'h top_level_command_data =
  data :: builder
  execute :: 'h
  autocomplete :: "'h option"
  selectMenus :: "(string, 'h) js_map option"
  buttons :: "(string, 'h) js_map option"
  modals :: "(string, 'h) js_map option"

record 'h command_data = "'h top_level_command_data" +
  permissions :: "nat option"

type_synonym 'h subcommand_data = "'h top_level_command_data"

record 'h subcommand_group_data =
  group_data :: builder
  group_subcommands :: "(string, 'h subcommand_data) js_map option"

text \<open>
  \<open>SubcommandIndexData.execute\<close> is optional; \<open>loadSubcommand\<close> installs its own
  dispatching closure when the definition has none (\<open>index.execute ??= ...\<close>).
\<close>

datatype 'h index_execute = Supplied 'h | Synthesized

record 'h subcommand_index_data =
  index_data :: builder
  index_permissions :: "nat option"
  subcommands :: "(string, 'h subcommand_data) js_map option"
  subcommandGroups :: "(string, 'h subcommand_group_data) js_map option"
  index_execute :: "'h index_execute option"

text \<open>The \<open>interface\<close> tag of a registry entry is the constructor.\<close>

datatype 'h command =
    CommandData "'h command_data"
  | SubcommandIndexData "'h subcommand_index_data"

datatype context_type = User | Message

record 'h context_menu_data =
  context_data :: builder
  context_type :: context_type
  context_permissions :: "nat option"
  context_execute :: 'h

record modal_builder =
  custom_id :: "string option"
  title :: "string option"

record 'h modal_data =
  modal_data :: modal_builder
  modal_execute :: 'h

section \<open>The client (src/src/index.ts, lines 130-137)\<close>

record 'h client =
  store :: "string \<Rightarrow> string option"
  commands :: "(string, 'h command) js_map"
  client_modals :: "(string, 'h modal_data) js_map"
  contextMenus_User :: "(string, 'h context_menu_data) js_map"
  contextMenus_Message :: "(string, 'h context_menu_data) js_map"

text \<open>The field initialisers of the class: an empty store and empty registries.\<close>

definition new_client :: "'h client" where
  "new_client =
     \<lparr>store = (\<lambda>key. None), commands = [], client_modals = [],
      contextMenus_User = [], contextMenus_Message = []\<rparr>"

section \<open>Loaders (src/src/index.ts, lines 264-288 and 645-650)\<close>

text \<open>
  Each loader imports a module and hands its default export to a callback; the model is
  the callback, applied to the definitions in the order their imports settle.
\<close>



definition loadContextMenu :: "'h context_menu_data \<Rightarrow> 'h client \<Rightarrow> 'h client" where
  "loadContextMenu context c =
     (case context_type context of
        User \<Rightarrow>
          c\<lparr>contextMenus_User := map_set (name (context_data context)) context (contextMenus_User c)\<rparr>
      | Message \<Rightarrow>
          c\<lparr>contextMenus_Message :=
              map_set (name (context_data context)) context (contextMenus_Message c)\<rparr>)"

text \<open>
  \<open>const name = modal.data.data.custom_id ?? modal.data.data.title; if (!name) return;\<close>
  The \<open>??\<close> falls through on \<open>undefined\<close> only; \<open>!name\<close> also holds of the empty string.
\<close>

definition loadModal :: "'h modal_data \<Rightarrow> 'h client \<Rightarrow> 'h client" where
  "loadModal modal c =
     (let key = (case custom_id (modal_data modal) of
                   Some s \<Rightarrow> Some s
                 | None \<Rightarrow> title (modal_data modal))
      in (case key of
            None \<Rightarrow> c
          | Some n \<Rightarrow>
              if n = [] then c
              else c\<lparr>client_modals := map_set n modal (client_modals c)\<rparr>))"


definition loadModals :: "'h modal_data list \<Rightarrow> 'h client \<Rightarrow> 'h client" where
  "loadModals ms c = fold loadModal ms c"


section \<open>Interactions and what the handler does with them\<close>

datatype error = TypeError | NoSubcommand | Thrown string

text \<open>
  The interaction as the handler reads it: the type guards (\<open>isChatInputCommand()\<close>,
  \<open>isUserContextMenuCommand()\<close>, ...) as one tag, \<open>inGuild()\<close>, the invoking member's
  \<open>permissions.has\<close>, \<open>options.getSubcommand(false)\<close> and
  \<open>options.getSubcommandGroup(false)\<close>. The handler reads \<open>member?.permissions\<close> as a
  \<open>PermissionsBitField\<close> by a type assertion; \<open>member_permissions\<close> is \<open>None\<close> when there
  is no such object to call \<open>has\<close> on: the interaction has no \<open>member\<close>, or its member is
  the raw payload of a guild that is not cached, whose \<open>permissions\<close> is a string.
\<close>

datatype interaction_kind =
    ChatInputCommand
  | UserContextMenuCommand
  | MessageContextMenuCommand
  | OtherContextMenuCommand
  | Autocomplete
  | AnySelectMenu
  | ModalSubmit
  | Button
  | OtherInteraction

record interaction =
  kind :: interaction_kind
  commandName :: string
  customId :: string
  inGuild :: bool
  member_permissions :: "(nat \<Rightarrow> bool) option"
  getSubcommand :: "string option"
  getSubcommandGroup :: "string option"

text \<open>
  What one call of a listener does, as far as the handler can see: whether it leaves the
  interaction deferred or replied, and whether it throws (or its promise rejects). The
  SDK builds an interaction with both flags false. The handler is given the listeners'
  behaviour on the interaction at hand as a function \<open>run\<close> of the listener and its
  trailing arguments.
\<close>

record ran =
  deferred :: bool
  replied :: bool
  thrown :: "error option"

definition fresh :: ran where
  "fresh = \<lparr>deferred = False, replied = False, thrown = None\<rparr>"

text \<open>
  The calls the handler makes, in order: \<open>interaction.reply\<close> and
  \<open>interaction.editReply\<close> (content, and whether \<open>MessageFlags.Ephemeral\<close> is passed),
  \<open>interaction.respond\<close>, \<open>logger.error\<close>, and a listener with its trailing arguments.
  The handler is an async function: it resolves, or rejects with an error.
\<close>

datatype 'h effect =
    Reply string bool
  | EditReply string bool
  | Respond "(string \<times> string) list"
  | LogError error
  | Call 'h "string list"

record 'h handled =
  effects :: "'h effect list"
  rejected :: "error option"

definition resolves :: "'h effect list \<Rightarrow> 'h handled" where
  "resolves es = \<lparr>effects = es, rejected = None\<rparr>"

definition rejects :: "'h effect list \<Rightarrow> error \<Rightarrow> 'h handled" where
  "rejects es e = \<lparr>effects = es, rejected = Some e\<rparr>"

text \<open>\<open>reply\<close> (lines 113-116), with the flags the interaction has at that moment.\<close>

definition reply :: "ran \<Rightarrow> string \<Rightarrow> 'h effect" where
  "reply flags content =
     (if deferred flags \<or> replied flags then EditReply content True else Reply content True)"

text \<open>
  \<open>try { await h(client, interaction) } catch (error) { logger.error(error); await
  reply(interaction, message) }\<close> and the variant of the component and autocomplete
  branches, which only logs.
\<close>

definition try_reply :: "('h \<Rightarrow> string list \<Rightarrow> ran) \<Rightarrow> 'h \<Rightarrow> string \<Rightarrow> 'h effect list" where
  "try_reply run h message =
     Call h [] #
     (case thrown (run h []) of
        None \<Rightarrow> []
      | Some e \<Rightarrow> [LogError e, reply (run h []) message])"

definition try_log :: "('h \<Rightarrow> string list \<Rightarrow> ran) \<Rightarrow> 'h \<Rightarrow> string list \<Rightarrow> 'h effect list" where
  "try_log run h args =
     Call h args # (case thrown (run h args) of None \<Rightarrow> [] | Some e \<Rightarrow> [LogError e])"

definition command_failed :: string where
  "command_failed = ''There was an error while executing this command!''"

text \<open>
  The closure \<open>loadSubcommand\<close> installs as \<open>index.execute\<close> (lines 598-629).
  \<open>getSubcommand()\<close> is called with its default \<open>required = true\<close> and throws when the
  interaction names no subcommand; \<open>index.subcommands!\<close> and \<open>group?.subcommands!\<close>
  are dereferenced unchecked.
\<close>

definition find_subcommand ::
  "'h subcommand_index_data \<Rightarrow> string option \<Rightarrow> string \<Rightarrow> error + 'h subcommand_data option" where
  "find_subcommand index groupName sub =
     (if \<not> falsy groupName then
        (case subcommandGroups index of
           None \<Rightarrow> Inl TypeError
         | Some groups \<Rightarrow>
             (case map_get_arg groups groupName of
                None \<Rightarrow> Inr None
              | Some grp \<Rightarrow>
                  (case group_subcommands grp of
                     None \<Rightarrow> Inl TypeError
                   | Some subs \<Rightarrow> Inr (map_get subs sub))))
      else
        (case subcommands index of
           None \<Rightarrow> Inl TypeError
         | Some subs \<Rightarrow> Inr (map_get subs sub)))"

definition synthesized_execute ::
  "('h \<Rightarrow> string list \<Rightarrow> ran) \<Rightarrow> 'h subcommand_index_data \<Rightarrow> interaction \<Rightarrow> 'h handled" where
  "synthesized_execute run index i =
     (if kind i \<noteq> ChatInputCommand then resolves []
      else
        (case getSubcommand i of
           None \<Rightarrow> rejects [] NoSubcommand
         | Some sub \<Rightarrow>
             (case find_subcommand index (getSubcommandGroup i) sub of
                Inl e \<Rightarrow> rejects [] e
              | Inr None \<Rightarrow>
                  resolves [reply fresh (''Could not find subcommand **'' @ sub @ ''**!'')]
              | Inr (Some subcommand) \<Rightarrow>
                  resolves (try_reply run (execute subcommand) command_failed))))"

text \<open>
  \<open>try { await command.execute!(client, interaction) } catch ...\<close> of the chat-input
  branch (lines 330-338). A subcommand index with no \<open>execute\<close> at all is called as a
  function all the same, which is a TypeError inside the \<open>try\<close>.
\<close>

definition execute_command ::
  "('h \<Rightarrow> string list \<Rightarrow> ran) \<Rightarrow> 'h command \<Rightarrow> interaction \<Rightarrow> 'h effect list" where
  "execute_command run command i =
     (case command of
        CommandData c \<Rightarrow> try_reply run (execute c) command_failed
      | SubcommandIndexData index \<Rightarrow>
          (case index_execute index of
             None \<Rightarrow> [LogError TypeError, reply fresh command_failed]
           | Some (Supplied h) \<Rightarrow> try_reply run h command_failed
           | Some Synthesized \<Rightarrow>
               (let r = synthesized_execute run index i
                in effects r @
                   (case rejected r of
                      None \<Rightarrow> []
                    | Some e \<Rightarrow> [LogError e, reply fresh command_failed]))))"

definition command_permissions :: "'h command \<Rightarrow> nat option" where
  "command_permissions command =
     (case command of
        CommandData c \<Rightarrow> permissions c
      | SubcommandIndexData index \<Rightarrow> index_permissions index)"

text \<open>The chat-input branch (lines 305-338).\<close>

definition handle_chat_input ::
  "('h \<Rightarrow> string list \<Rightarrow> ran) \<Rightarrow> 'h client \<Rightarrow> interaction \<Rightarrow> 'h handled" where
  "handle_chat_input run client i =
     (case map_get (commands client) (commandName i) of
        None \<Rightarrow> resolves [Reply (''Could not find command **'' @ commandName i @ ''**!'') True]
      | Some command \<Rightarrow>
          (if inGuild i then
             (case command_permissions command of
                None \<Rightarrow> resolves (execute_command run command i)
              | Some p \<Rightarrow>
                  (case member_permissions i of
                     None \<Rightarrow> rejects [] TypeError
                   | Some has \<Rightarrow>
                       if \<not> has p
                       then resolves [Reply ''You do not have permission to use this command!'' True]
                       else resolves (execute_command run command i)))
           else resolves (execute_command run command i)))"

text \<open>The context-menu branch (lines 339-373).\<close>

definition handle_context_menu ::
  "('h \<Rightarrow> string list \<Rightarrow> ran) \<Rightarrow> 'h client \<Rightarrow> interaction \<Rightarrow> 'h handled" where
  "handle_context_menu run client i =
     (case (if kind i = UserContextMenuCommand then Some (contextMenus_User client)
            else if kind i = MessageContextMenuCommand then Some (contextMenus_Message client)
            else None) of
        None \<Rightarrow> resolves []
      | Some menus \<Rightarrow>
          (case map_get menus (commandName i) of
             None \<Rightarrow>
               resolves [Reply (''Could not find context menu **'' @ commandName i @ ''**!'') True]
           | Some context \<Rightarrow>
               (case context_permissions context of
                  None \<Rightarrow>
                    resolves (try_reply run (context_execute context)
                      ''There was an error while executing this context menu!'')
                | Some p \<Rightarrow>
                    (case member_permissions i of
                       None \<Rightarrow> rejects [] TypeError
                     | Some has \<Rightarrow>
                         if \<not> has p
                         then resolves
                           [Reply ''You do not have permission to use this context menu!'' True]
                         else resolves (try_reply run (context_execute context)
                           ''There was an error while executing this context menu!'')))))"

text \<open>
  The autocomplete branch (lines 374-400). The registry entry is read as a
  \<open>SubcommandIndexData\<close> whatever it is; a \<open>CommandData\<close> has neither \<open>subcommands\<close>
  nor \<open>subcommandGroups\<close>.
\<close>

definition find_autocomplete :: "'h command \<Rightarrow> string option \<Rightarrow> string option \<Rightarrow> 'h option" where
  "find_autocomplete command subcommand groupName =
     (if \<not> falsy subcommand then
        (case command of
           CommandData c \<Rightarrow> None
         | SubcommandIndexData index \<Rightarrow>
             (if \<not> falsy groupName then
                (case opt_get (subcommandGroups index) groupName of
                   None \<Rightarrow> None
                 | Some g \<Rightarrow>
                     (case opt_get (group_subcommands g) subcommand of
                        None \<Rightarrow> None
                      | Some s \<Rightarrow> autocomplete s))
              else
                (case opt_get (subcommands index) subcommand of
                   None \<Rightarrow> None
                 | Some s \<Rightarrow> autocomplete s)))
      else None)"

definition handle_autocomplete ::
  "('h \<Rightarrow> string list \<Rightarrow> ran) \<Rightarrow> 'h client \<Rightarrow> interaction \<Rightarrow> 'h handled" where
  "handle_autocomplete run client i =
     (case map_get (commands client) (commandName i) of
        None \<Rightarrow> resolves []
      | Some command \<Rightarrow>
          (case find_autocomplete command (getSubcommand i) (getSubcommandGroup i) of
             None \<Rightarrow> resolves [Respond [(''ERROR'', ''autocompleteNotFound'')]]
           | Some h \<Rightarrow> resolves (try_log run h [])))"

text \<open>
  The component branch (lines 401-468): \<open>lookup\<close> names the table of the definition the
  listener is taken from.
\<close>

datatype lookup = SelectMenus | Modals | Buttons

definition table :: "lookup \<Rightarrow> ('h, 'z) top_level_command_data_scheme \<Rightarrow> (string, 'h) js_map option" where
  "table l d = (case l of SelectMenus \<Rightarrow> selectMenus d | Modals \<Rightarrow> modals d | Buttons \<Rightarrow> buttons d)"

definition listener_at ::
  "lookup \<Rightarrow> ('h, 'z) top_level_command_data_scheme \<Rightarrow> string option \<Rightarrow> 'h option" where
  "listener_at l d key = (case table l d of None \<Rightarrow> None | Some obj \<Rightarrow> prop_get obj key)"

definition run_listener ::
  "('h \<Rightarrow> string list \<Rightarrow> ran) \<Rightarrow> 'h option \<Rightarrow> string list \<Rightarrow> 'h handled" where
  "run_listener run h args =
     (case h of None \<Rightarrow> resolves [] | Some i \<Rightarrow> resolves (try_log run i args))"

definition handle_component ::
  "('h \<Rightarrow> string list \<Rightarrow> ran) \<Rightarrow> 'h client \<Rightarrow> interaction \<Rightarrow> 'h handled" where
  "handle_component run client i =
     (let args = split (CHR ''-'') (customId i);
          lookup = (if kind i = AnySelectMenu then SelectMenus
                    else if kind i = ModalSubmit then Modals
                    else Buttons)
      in (case map_get_arg (commands client) (at args 0) of
            None \<Rightarrow>
              (if kind i \<noteq> ModalSubmit then resolves []
               else
                 (case map_get_arg (client_modals client) (at args 0) of
                    None \<Rightarrow> resolves []
                  | Some modal \<Rightarrow>
                      (let args = tl args
                       in resolves (try_log run (modal_execute modal) (drop 1 args)))))
          | Some (CommandData c) \<Rightarrow> run_listener run (listener_at lookup c (at args 1)) (drop 2 args)
          | Some (SubcommandIndexData index) \<Rightarrow>
              (case opt_get (subcommandGroups index) (at args 1) of
                 Some grp \<Rightarrow>
                   (case opt_get (group_subcommands grp) (at args 2) of
                      None \<Rightarrow> resolves []
                    | Some subcommand \<Rightarrow>
                        run_listener run (listener_at lookup subcommand (at args 3)) (drop 4 args))
               | None \<Rightarrow>
                   (case opt_get (subcommands index) (at args 1) of
                      None \<Rightarrow> resolves []
                    | Some subcommand \<Rightarrow>
                        run_listener run (listener_at lookup subcommand (at args 2)) (drop 3 args)))))"

text \<open>The listener \<open>useDefaultInteractionHandler\<close> registers for \<open>InteractionCreate\<close>.\<close>

definition handler ::
  "('h \<Rightarrow> string list \<Rightarrow> ran) \<Rightarrow> 'h client \<Rightarrow> interaction \<Rightarrow> 'h handled" where
  "handler run client i =
     (if kind i = ChatInputCommand then handle_chat_input run client i
      else if kind i \<in> {UserContextMenuCommand, MessageContextMenuCommand, OtherContextMenuCommand}
        then handle_context_menu run client i
      else if kind i = Autocomplete then handle_autocomplete run client i
      else if kind i \<in> {AnySelectMenu, ModalSubmit, Button} then handle_component run client i
      else resolves [])"

section \<open>The registration signature (src/src/index.ts, lines 502-509)\<close>

text \<open>
  \<open>JSON.stringify(all, null, 4)\<close>: the runtime's serialiser with a gap of four spaces.
  \<open>QuoteJSONString\<close> escapes the quote, the backslash and the control characters.
\<close>

definition hex_digit :: "nat \<Rightarrow> char" where
  "hex_digit n = (''0123456789abcdef'' ! (n mod 16))"

definition quote_char :: "char \<Rightarrow> string" where
  "quote_char c =
     (if c = CHR 0x08 then [CHR 0x5C, CHR ''b'']
      else if c = CHR 0x09 then [CHR 0x5C, CHR ''t'']
      else if c = CHR 0x0A then [CHR 0x5C, CHR ''n'']
      else if c = CHR 0x0C then [CHR 0x5C, CHR ''f'']
      else if c = CHR 0x0D then [CHR 0x5C, CHR ''r'']
      else if c = CHR 0x22 then [CHR 0x5C, CHR 0x22]
      else if c = CHR 0x5C then [CHR 0x5C, CHR 0x5C]
      else if of_char c < (0x20 :: nat)
        then [CHR 0x5C] @ ''u00'' @ [hex_digit (of_char c div 16), hex_digit (of_char c)]
      else [c])"

definition quote :: "string \<Rightarrow> string" where
  "quote s = CHR 0x22 # concat (map quote_char s) @ [CHR 0x22]"

fun digits :: "nat \<Rightarrow> string" where
  "digits n = (if n < 10 then [hex_digit n] else digits (n div 10) @ [hex_digit (n mod 10)])"

definition number_text :: "int \<Rightarrow> string" where
  "number_text n = (if n < 0 then CHR ''-'' # digits (nat (- n)) else digits (nat n))"

definition indent :: "nat \<Rightarrow> string" where
  "indent k = replicate (4 * k) (CHR '' '')"

fun join :: "string \<Rightarrow> string list \<Rightarrow> string" where
  "join sep [] = []"
| "join sep [x] = x"
| "join sep (x # y # ys) = x @ sep @ join sep (y # ys)"

definition wrap :: "char \<Rightarrow> char \<Rightarrow> nat \<Rightarrow> string list \<Rightarrow> string" where
  "wrap opening closing k items =
     (if items = [] then [opening, closing]
      else [opening, CHR 0x0A] @ indent (Suc k) @
           join ([CHR '','', CHR 0x0A] @ indent (Suc k)) items @
           [CHR 0x0A] @ indent k @ [closing])"

fun serialize :: "nat \<Rightarrow> json \<Rightarrow> string" where
  "serialize k JNull = ''null''"
| "serialize k (JBool b) = (if b then ''true'' else ''false'')"
| "serialize k (JNumber n) = number_text n"
| "serialize k (JString s) = quote s"
| "serialize k (JArray xs) = wrap (CHR ''['') (CHR '']'') k (map (serialize (Suc k)) xs)"
| "serialize k (JObject ps) =
     wrap (CHR ''{'') (CHR ''}'') k
       (map (\<lambda>p. quote (fst p) @ '': '' @ serialize (Suc k) (snd p)) ps)"

definition stringify :: "json list \<Rightarrow> string" where
  "stringify all = serialize 0 (JArray all)"

text \<open>
  \<open>.replace(/"([^"]+)":/g, "$1:")\<close>: scanning from the left, a quote followed by one or
  more characters other than a quote, a quote and a colon is replaced by those characters
  and the colon, and the scan goes on behind the match; any other character is kept.
\<close>

definition not_quote :: "char \<Rightarrow> bool" where
  "not_quote c = (c \<noteq> CHR 0x22)"

function unquote_keys :: "string \<Rightarrow> string" where
  "unquote_keys [] = []"
| "unquote_keys (c # cs) =
     (if c = CHR 0x22 \<and> takeWhile not_quote cs \<noteq> [] \<and>
         take 2 (dropWhile not_quote cs) = [CHR 0x22, CHR '':'']
      then takeWhile not_quote cs @ '':'' @ unquote_keys (drop 2 (dropWhile not_quote cs))
      else c # unquote_keys cs)"
  by pat_completeness auto
termination
  by (relation "measure length")
    (auto simp: less_Suc_eq_le intro: order_trans [OF diff_le_self length_dropWhile_le])

text \<open>\<open>.replace(/\s/g, "")\<close>: the white space among the code units below 256.\<close>

definition white_space :: "char \<Rightarrow> bool" where
  "white_space c =
     (c = CHR 0x09 \<or> c = CHR 0x0A \<or> c = CHR 0x0B \<or> c = CHR 0x0C \<or> c = CHR 0x0D \<or>
      c = CHR 0x20 \<or> c = CHR 0xA0)"

definition strip_white_space :: "string \<Rightarrow> string" where
  "strip_white_space s = filter (\<lambda>c. \<not> white_space c) s"

definition parsedString :: "json list \<Rightarrow> string" where
  "parsedString all = strip_white_space (unquote_keys (stringify all))"

section \<open>Login (src/src/index.ts, lines 483-530)\<close>

text \<open>
  What \<open>login\<close> reads from outside the client: the environment variables, the SDK's own
  \<open>login\<close> (\<open>None\<close> when it resolves, the error when it throws), \<open>this.user?.id\<close> once
  it has resolved, the REST transport's \<open>put\<close> (\<open>None\<close> when it resolves) and the
  builders' \<open>toJSON\<close>.
\<close>

datatype route = ApplicationGuildCommands string string | ApplicationCommands string

record environment =
  DISCORD_TOKEN :: "string option"
  NODE_ENV :: "string option"
  CLIENT_ID :: "string option"
  TEST_GUILD_ID :: "string option"
  super_login :: "string option \<Rightarrow> error option"
  user_id :: "string option"
  rest_put :: "route \<Rightarrow> json list \<Rightarrow> error option"
  toJSON :: "builder \<Rightarrow> json"

datatype logged =
    Debug string
  | Info string
  | Warn string
  | Log string
  | Success string
  | ErrorMessage string
  | ErrorValue error

datatype login_effect = Logger logged | SleepAsync nat | RestPut route "json list"

datatype login_outcome = Returned string | ProcessExit nat | LoginRejected error

record 'h login_result =
  outcome :: login_outcome
  client_after :: "'h client"
  login_effects :: "login_effect list"

definition registered_applications :: string where
  "registered_applications = ''%registered_applications%''"

definition store_get :: "'h client \<Rightarrow> string \<Rightarrow> string \<Rightarrow> string" where
  "store_get c key d = (case store c key of None \<Rightarrow> d | Some v \<Rightarrow> v)"

definition store_set :: "string \<Rightarrow> string \<Rightarrow> 'h client \<Rightarrow> 'h client" where
  "store_set key v c = c\<lparr>store := (store c)(key \<mapsto> v)\<rparr>"

definition command_builder :: "'h command \<Rightarrow> builder" where
  "command_builder command =
     (case command of CommandData c \<Rightarrow> data c | SubcommandIndexData index \<Rightarrow> index_data index)"

definition exported :: "environment \<Rightarrow> 'h client \<Rightarrow> json list" where
  "exported env c =
     map (\<lambda>command. toJSON env (command_builder command)) (map_values (commands c)) @
     map (\<lambda>context. toJSON env (context_data context)) (map_values (contextMenus_User c)) @
     map (\<lambda>context. toJSON env (context_data context)) (map_values (contextMenus_Message c))"

definition signature :: "environment \<Rightarrow> 'h client \<Rightarrow> string" where
  "signature env c = parsedString (exported env c)"

definition no_guild_warning :: string where
  "no_guild_warning =
     ''No guild ID was provided for the test environment!'' @ [CHR 0x0A] @
     ''Commands will be registered globally in 5 seconds.''"

definition register ::
  "environment \<Rightarrow> string \<Rightarrow> string \<Rightarrow> 'h client \<Rightarrow> 'h login_result" where
  "register env token clientId c =
     (let isTestEnv = (NODE_ENV env = Some ''development'');
          guildId = TEST_GUILD_ID env;
          warned = (if isTestEnv \<and> falsy guildId
                    then [Logger (Warn no_guild_warning), SleepAsync 5000] else []) @
                   [Logger (Debug ''Checking if interactions need to be registered...'')];
          all = exported env c;
          parsed = parsedString all
      in if store_get c registered_applications [] = parsed \<and> parsed \<noteq> []
         then \<lparr>outcome = Returned token, client_after = c,
               login_effects = warned @ [Logger (Log ''Interactions are currently up to date!'')]\<rparr>
         else
           (let route = (case guildId of
                           None \<Rightarrow> ApplicationCommands clientId
                         | Some g \<Rightarrow>
                             if isTestEnv \<and> g \<noteq> [] then ApplicationGuildCommands clientId g
                             else ApplicationCommands clientId);
                called = warned @ [Logger (Info ''Registering interactions...''), RestPut route all]
            in (case rest_put env route all of
                  None \<Rightarrow>
                    \<lparr>outcome = Returned token,
                     client_after = store_set registered_applications parsed c,
                     login_effects = called @ [Logger (Success ''Interactions have been registered!'')]\<rparr>
                | Some e \<Rightarrow>
                    \<lparr>outcome = ProcessExit 1, client_after = c,
                     login_effects = called @ [Logger (ErrorValue e)]\<rparr>)))"

text \<open>
  \<open>token ??= process.env.DISCORD_TOKEN\<close> and
  \<open>const clientId = process.env.CLIENT_ID ?? this.user?.id\<close>.
\<close>

definition resolve_token :: "environment \<Rightarrow> string option \<Rightarrow> string option" where
  "resolve_token env token_arg =
     (case token_arg of Some t \<Rightarrow> Some t | None \<Rightarrow> DISCORD_TOKEN env)"

definition resolve_client_id :: "environment \<Rightarrow> string option" where
  "resolve_client_id env = (case CLIENT_ID env of Some i \<Rightarrow> Some i | None \<Rightarrow> user_id env)"

definition no_token_or_client_id :: "'h client \<Rightarrow> 'h login_result" where
  "no_token_or_client_id c =
     \<lparr>outcome = ProcessExit 1, client_after = c,
      login_effects = [Logger (ErrorMessage ''No token or client ID was provided!'')]\<rparr>"

definition login :: "environment \<Rightarrow> string option \<Rightarrow> 'h client \<Rightarrow> 'h login_result" where
  "login env token_arg c =
     (let token = resolve_token env token_arg
      in (case super_login env token of
            Some e \<Rightarrow> \<lparr>outcome = LoginRejected e, client_after = c, login_effects = []\<rparr>
          | None \<Rightarrow>
              (let clientId = resolve_client_id env
               in if falsy token \<or> falsy clientId then no_token_or_client_id c
                  else
                    (case (token, clientId) of
                       (Some t, Some i) \<Rightarrow> register env t i c
                     | _ \<Rightarrow> no_token_or_client_id c))))"

text \<open>The calls of the REST transport among the effects of a login.\<close>

fun rest_calls :: "login_effect list \<Rightarrow> (route \<times> json list) list" where
  "rest_calls [] = []"
| "rest_calls (RestPut r b # es) = (r, b) # rest_calls es"
| "rest_calls (Logger l # es) = rest_calls es"
| "rest_calls (SleepAsync n # es) = rest_calls es"

section \<open>A small bot\<close>

text \<open>
  Concrete definitions on which the theorems below are run. Listeners are named by
  strings. \<open>ping\<close> is a top-level command that asks for the Administrator permission
  (bit 3), as \<open>loadCommand\<close> leaves it; \<open>cmdA\<close> is a subcommand index with one subcommand, \<open>sub1\<close>, and one group,
  \<open>grp1\<close>, holding \<open>sub2\<close>; \<open>Report\<close> is a user context menu; \<open>feedback\<close> is a modal
  of the flat registry.
\<close>

definition ping :: "string command_data" where
  "ping =
     \<lparr>data = \<lparr>name = ''ping'', default_member_permissions = Some 8,
              schema = JObject [(''description'', JString ''Replies with pong'')]\<rparr>,
      execute = ''ping.execute'', autocomplete = Some ''ping.autocomplete'',
      selectMenus = None, buttons = Some [(''btn1'', ''ping.btn1'')], modals = None,
      permissions = Some 8\<rparr>"

definition sub1 :: "string subcommand_data" where
  "sub1 =
     \<lparr>data = \<lparr>name = ''sub1'', default_member_permissions = None, schema = JNull\<rparr>,
      execute = ''sub1.execute'', autocomplete = Some ''sub1.autocomplete'',
      selectMenus = None, buttons = Some [(''btn1'', ''sub1.btn1'')],
      modals = Some [(''form'', ''sub1.form'')]\<rparr>"

definition sub2 :: "string subcommand_data" where
  "sub2 =
     \<lparr>data = \<lparr>name = ''sub2'', default_member_permissions = None, schema = JNull\<rparr>,
      execute = ''sub2.execute'', autocomplete = Some ''sub2.autocomplete'',
      selectMenus = None, buttons = Some [(''btn2'', ''sub2.btn2'')], modals = None\<rparr>"

definition grp1 :: "string subcommand_group_data" where
  "grp1 =
     \<lparr>group_data = \<lparr>name = ''grp1'', default_member_permissions = None, schema = JNull\<rparr>,
      group_subcommands = Some [(''sub2'', sub2)]\<rparr>"

definition cmdA :: "string subcommand_index_data" where
  "cmdA =
     \<lparr>index_data = \<lparr>name = ''cmdA'', default_member_permissions = None,
                    schema = JObject [(''description'', JString ''A'')]\<rparr>,
      index_permissions = None,
      subcommands = Some [(''sub1'', sub1)],
      subcommandGroups = Some [(''grp1'', grp1)],
      index_execute = Some Synthesized\<rparr>"

definition report :: "string context_menu_data" where
  "report =
     \<lparr>context_data = \<lparr>name = ''Report'', default_member_permissions = None, schema = JNull\<rparr>,
      context_type = User, context_permissions = Some 8,
      context_execute = ''Report.execute''\<rparr>"

definition feedback :: "string modal_data" where
  "feedback =
     \<lparr>modal_data = \<lparr>custom_id = Some ''feedback'', title = Some ''Feedback''\<rparr>,
      modal_execute = ''feedback.execute''\<rparr>"

definition sample_client :: "string client" where
  "sample_client =
     \<lparr>store = (\<lambda>key. None),
      commands = [(''ping'', CommandData ping), (''cmdA'', SubcommandIndexData cmdA)],
      client_modals = [(''feedback'', feedback)],
      contextMenus_User = [(''Report'', report)],
      contextMenus_Message = []\<rparr>"

text \<open>
  An interaction of the given kind with nothing else set, outside a guild; listeners
  that all return without touching the interaction; and listeners that reply and then
  throw.
\<close>

definition incoming :: "interaction_kind \<Rightarrow> interaction" where
  "incoming k =
     \<lparr>kind = k, commandName = [], customId = [], inGuild = False,
      member_permissions = None, getSubcommand = None, getSubcommandGroup = None\<rparr>"

definition quiet :: "string \<Rightarrow> string list \<Rightarrow> ran" where
  "quiet h args = fresh"

definition replies_then_throws :: "string \<Rightarrow> string list \<Rightarrow> ran" where
  "replies_then_throws h args = \<lparr>deferred = False, replied = True, thrown = Some (Thrown ''boom'')\<rparr>"

definition throws :: "string \<Rightarrow> string list \<Rightarrow> ran" where
  "throws h args = \<lparr>deferred = False, replied = False, thrown = Some (Thrown ''boom'')\<rparr>"

text \<open>
  Environments: one in which everything is configured and every external call succeeds;
  the SDK's \<open>login\<close> as the platform has it, failing when it is given no token; a
  transport that refuses the registration.
\<close>

definition sample_toJSON :: "builder \<Rightarrow> json" where
  "sample_toJSON b =
     JObject [(''name'', JString (name b)), (''schema'', schema b)]"

definition configured :: environment where
  "configured =
     \<lparr>DISCORD_TOKEN = Some ''token'', NODE_ENV = None, CLIENT_ID = Some ''1234'',
      TEST_GUILD_ID = None, super_login = (\<lambda>t. None), user_id = Some ''1234'',
      rest_put = (\<lambda>r b. None), toJSON = sample_toJSON\<rparr>"

definition token_invalid :: "string option \<Rightarrow> error option" where
  "token_invalid t = (if falsy t then Some (Thrown ''TokenInvalid'') else None)"

definition forbidden :: "route \<Rightarrow> json list \<Rightarrow> error option" where
  "forbidden r b = Some (Thrown ''403'')"

section \<open>The registry: last loaded wins\<close>

lemma map_get_map_set:
  "map_get (map_set k v m) k' = (if k' = k then Some v else map_get m k')"
  by (induction m) auto








section \<open>The modal loader\<close>

text \<open>
  Where C10 as stated fails. A modal whose builder has the empty string as custom id,
  and a title: the custom id is present, so the title is not consulted, and the empty
  name is skipped. The modal is registered under neither.
\<close>

theorem modal_key_counterexample:
  "map_get (client_modals (loadModal
      \<lparr>modal_data = \<lparr>custom_id = Some [], title = Some ''Feedback''\<rparr>, modal_execute = (0::nat)\<rparr>
      new_client)) [] = None
   \<and> map_get (client_modals (loadModal
      \<lparr>modal_data = \<lparr>custom_id = Some [], title = Some ''Feedback''\<rparr>, modal_execute = (0::nat)\<rparr>
      new_client)) ''Feedback'' = None"
  by (simp add: loadModal_def new_client_def)

text \<open>
  C10, as the code has it. The registry key of a modal loaded from the modal folder is
  the builder's custom id when that is defined and not empty; when the custom id is
  undefined, it is the builder's title if that is not empty. The modal is skipped, and
  the client left as it was, when the custom id is the empty string (whatever the title),
  and when the custom id is undefined and the title is undefined or empty.
\<close>

theorem modal_key_rule:
  "(custom_id (modal_data m) = Some s \<and> s \<noteq> [] \<longrightarrow>
      client_modals (loadModal m c) = map_set s m (client_modals c) \<and>
      map_get (client_modals (loadModal m c)) s = Some m)
   \<and> (custom_id (modal_data m) = None \<and> title (modal_data m) = Some t \<and> t \<noteq> [] \<longrightarrow>
      client_modals (loadModal m c) = map_set t m (client_modals c) \<and>
      map_get (client_modals (loadModal m c)) t = Some m)
   \<and> (custom_id (modal_data m) = Some [] \<or>
       custom_id (modal_data m) = None \<and>
         (title (modal_data m) = None \<or> title (modal_data m) = Some []) \<longrightarrow>
      loadModal m c = c)"
  by (auto simp add: loadModal_def map_get_map_set)

theorem modal_key_rule_witness:
  "client_modals (loadModal
      \<lparr>modal_data = \<lparr>custom_id = Some ''feedback'', title = Some ''Feedback''\<rparr>, modal_execute = (0::nat)\<rparr>
      new_client) =
     [(''feedback'',
       \<lparr>modal_data = \<lparr>custom_id = Some ''feedback'', title = Some ''Feedback''\<rparr>, modal_execute = 0\<rparr>)]
   \<and> client_modals (loadModal
      \<lparr>modal_data = \<lparr>custom_id = None, title = Some ''Feedback''\<rparr>, modal_execute = (1::nat)\<rparr>
      new_client) =
     [(''Feedback'',
       \<lparr>modal_data = \<lparr>custom_id = None, title = Some ''Feedback''\<rparr>, modal_execute = 1\<rparr>)]
   \<and> loadModal \<lparr>modal_data = \<lparr>custom_id = None, title = None\<rparr>, modal_execute = (2::nat)\<rparr> new_client
       = new_client"
  using
    modal_key_rule [where m = "\<lparr>modal_data = \<lparr>custom_id = Some ''feedback'', title = Some ''Feedback''\<rparr>, modal_execute = (0::nat)\<rparr>"
      and s = "''feedback''" and c = new_client]
    modal_key_rule [where m = "\<lparr>modal_data = \<lparr>custom_id = None, title = Some ''Feedback''\<rparr>, modal_execute = (1::nat)\<rparr>"
      and t = "''Feedback''" and c = new_client]
    modal_key_rule [where m = "\<lparr>modal_data = \<lparr>custom_id = None, title = None\<rparr>, modal_execute = (2::nat)\<rparr>"
      and c = new_client]
  by (simp add: new_client_def)

section \<open>Permission checks\<close>


lemma handler_context_menu:
  "kind i = UserContextMenuCommand \<or> kind i = MessageContextMenuCommand \<Longrightarrow>
   handler run client i = handle_context_menu run client i"
  by (auto simp add: handler_def)





text \<open>
  C9. A context-menu interaction whose definition is registered with a permission
  requirement \<open>p\<close>. The handler's answer does not depend on \<open>inGuild()\<close>: the member's
  permissions are tested in every case. With no member (an interaction outside a guild)
  the handler dereferences the missing permission set and rejects with a TypeError,
  having replied nothing and called no listener; with a member who lacks \<open>p\<close> it sends
  the ephemeral refusal.
\<close>

theorem context_menu_permission_check_unguarded:
  assumes "kind i = UserContextMenuCommand \<and> menus = contextMenus_User client \<or>
           kind i = MessageContextMenuCommand \<and> menus = contextMenus_Message client"
    and "map_get menus (commandName i) = Some ctx"
    and "context_permissions ctx = Some p"
  shows
    "handler run client (i\<lparr>inGuild := b\<rparr>) = handler run client i
     \<and> (member_permissions i = None \<longrightarrow> handler run client i = rejects [] TypeError)
     \<and> (member_permissions i = Some has \<and> \<not> has p \<longrightarrow>
        handler run client i =
          resolves [Reply ''You do not have permission to use this context menu!'' True])
     \<and> (member_permissions i = Some has \<and> has p \<longrightarrow>
        handler run client i =
          resolves (try_reply run (context_execute ctx)
            ''There was an error while executing this context menu!''))"
  using assms
  by (auto simp add: handler_context_menu handle_context_menu_def)


theorem context_menu_permission_check_unguarded_witness:
  "handler quiet sample_client ((incoming UserContextMenuCommand)\<lparr>commandName := ''Report''\<rparr>) =
     rejects [] TypeError
   \<and> handler quiet sample_client
     ((incoming UserContextMenuCommand)\<lparr>commandName := ''Report'', inGuild := True\<rparr>) =
     rejects [] TypeError"
  using
    context_menu_permission_check_unguarded
      [where i = "(incoming UserContextMenuCommand)\<lparr>commandName := ''Report''\<rparr>"
        and client = sample_client and menus = "contextMenus_User sample_client" and ctx = report and p = 8
        and run = quiet and b = True]
  by (simp add: incoming_def sample_client_def report_def)

section \<open>Component routing\<close>

lemma handler_component:
  "kind i = AnySelectMenu \<or> kind i = ModalSubmit \<or> kind i = Button \<Longrightarrow>
   handler run client i = handle_component run client i"
  by (auto simp add: handler_def)

text \<open>
  C3. A component interaction (select menu, modal submission or button) whose custom id
  has at least three segments, the first naming a registered subcommand index; \<open>l\<close> is
  the table of its kind. When no group of the index is named by the second segment, the
  second segment selects the subcommand, the third the listener in the subcommand's
  table, and the listener is called with the segments after the third: none for a
  three-segment id, the fourth alone for a four-segment id. When a group is named by the
  second segment, the third selects the subcommand inside the group, the fourth the
  listener, and the listener is called with the segments after the fourth.
\<close>

theorem component_routing_one_segment_per_level:
  assumes "kind i = AnySelectMenu \<or> kind i = ModalSubmit \<or> kind i = Button"
    and "l = (if kind i = AnySelectMenu then SelectMenus
              else if kind i = ModalSubmit then Modals else Buttons)"
    and "split (CHR ''-'') (customId i) = s1 # s2 # s3 # rest"
    and "map_get (commands client) s1 = Some (SubcommandIndexData index)"
  shows
    "(opt_get (subcommandGroups index) (Some s2) = None \<and>
      opt_get (subcommands index) (Some s2) = Some sub \<and>
      listener_at l sub (Some s3) = Some h \<longrightarrow>
        handler run client i =
          resolves (Call h rest #
            (case thrown (run h rest) of None \<Rightarrow> [] | Some e \<Rightarrow> [LogError e])))
     \<and> (opt_get (subcommandGroups index) (Some s2) = Some grp \<and>
        opt_get (group_subcommands grp) (Some s3) = Some gsub \<and>
        rest = s4 # rest' \<and> listener_at l gsub (Some s4) = Some g \<longrightarrow>
        handler run client i =
          resolves (Call g rest' #
            (case thrown (run g rest') of None \<Rightarrow> [] | Some e \<Rightarrow> [LogError e])))"
proof (intro conjI impI; elim conjE)
  have at0: "at (s1 # s2 # s3 # rest) 0 = Some s1" "at (s1 # s2 # s3 # rest) 1 = Some s2"
    "at (s1 # s2 # s3 # rest) 2 = Some s3"
    by (simp_all add: at_def)
  have h: "handler run client i = handle_component run client i"
    using assms(1) by (rule handler_component)
  {
    assume "opt_get (subcommandGroups index) (Some s2) = None"
      and "opt_get (subcommands index) (Some s2) = Some sub"
      and "listener_at l sub (Some s3) = Some h"
    then show "handler run client i =
          resolves (Call h rest #
            (case thrown (run h rest) of None \<Rightarrow> [] | Some e \<Rightarrow> [LogError e]))"
      using assms(3,4) assms(2) [symmetric]
      by (simp add: h handle_component_def Let_def at_def map_get_arg_def
          run_listener_def try_log_def)
  }
  {
    assume "opt_get (subcommandGroups index) (Some s2) = Some grp"
      and "opt_get (group_subcommands grp) (Some s3) = Some gsub"
      and "rest = s4 # rest'" and "listener_at l gsub (Some s4) = Some g"
    then show "handler run client i =
          resolves (Call g rest' #
            (case thrown (run g rest') of None \<Rightarrow> [] | Some e \<Rightarrow> [LogError e]))"
      using assms(3,4) assms(2) [symmetric]
      by (simp add: h handle_component_def Let_def at_def map_get_arg_def
          run_listener_def try_log_def)
  }
qed

theorem component_routing_one_segment_per_level_witness:
  "handler quiet sample_client ((incoming Button)\<lparr>customId := ''cmdA-sub1-btn1''\<rparr>) =
     resolves [Call ''sub1.btn1'' []]
   \<and> handler quiet sample_client ((incoming Button)\<lparr>customId := ''cmdA-sub1-btn1-42''\<rparr>) =
     resolves [Call ''sub1.btn1'' [''42'']]
   \<and> handler quiet sample_client ((incoming Button)\<lparr>customId := ''cmdA-grp1-sub2-btn2''\<rparr>) =
     resolves [Call ''sub2.btn2'' []]
   \<and> handler quiet sample_client ((incoming Button)\<lparr>customId := ''cmdA-grp1-sub2-btn2-7''\<rparr>) =
     resolves [Call ''sub2.btn2'' [''7'']]"
  using
    component_routing_one_segment_per_level
      [where i = "(incoming Button)\<lparr>customId := ''cmdA-sub1-btn1''\<rparr>" and l = Buttons
        and client = sample_client and index = cmdA and run = quiet
        and ?s1.0 = "''cmdA''" and ?s2.0 = "''sub1''" and ?s3.0 = "''btn1''" and rest = "[]"
        and sub = sub1 and h = "''sub1.btn1''"]
    component_routing_one_segment_per_level
      [where i = "(incoming Button)\<lparr>customId := ''cmdA-sub1-btn1-42''\<rparr>" and l = Buttons
        and client = sample_client and index = cmdA and run = quiet
        and ?s1.0 = "''cmdA''" and ?s2.0 = "''sub1''" and ?s3.0 = "''btn1''" and rest = "[''42'']"
        and sub = sub1 and h = "''sub1.btn1''"]
    component_routing_one_segment_per_level
      [where i = "(incoming Button)\<lparr>customId := ''cmdA-grp1-sub2-btn2''\<rparr>" and l = Buttons
        and client = sample_client and index = cmdA and run = quiet
        and ?s1.0 = "''cmdA''" and ?s2.0 = "''grp1''" and ?s3.0 = "''sub2''" and rest = "[''btn2'']"
        and ?s4.0 = "''btn2''" and rest' = "[]" and grp = grp1 and gsub = sub2 and g = "''sub2.btn2''"]
    component_routing_one_segment_per_level
      [where i = "(incoming Button)\<lparr>customId := ''cmdA-grp1-sub2-btn2-7''\<rparr>" and l = Buttons
        and client = sample_client and index = cmdA and run = quiet
        and ?s1.0 = "''cmdA''" and ?s2.0 = "''grp1''" and ?s3.0 = "''sub2''" and rest = "[''btn2'', ''7'']"
        and ?s4.0 = "''btn2''" and rest' = "[''7'']" and grp = grp1 and gsub = sub2 and g = "''sub2.btn2''"]
  by (simp add: incoming_def sample_client_def cmdA_def grp1_def sub1_def sub2_def quiet_def fresh_def
      opt_get_def map_get_arg_def listener_at_def table_def prop_get_def)

section \<open>Modal fallback, autocomplete and listener errors\<close>

lemma handler_autocomplete:
  "kind i = Autocomplete \<Longrightarrow> handler run client i = handle_autocomplete run client i"
  by (simp add: handler_def)

text \<open>
  C4. A modal submission with custom id \<open>feedback-a-b\<close>: no command is named
  \<open>feedback\<close>, the flat registry has a modal of that name. The handler removes the
  first segment (\<open>args.shift()\<close>) and then passes \<open>args.slice(1)\<close>: the modal's
  listener receives \<open>b\<close> alone, and \<open>a\<close>, the first segment after the name, is lost.
  With the custom id \<open>feedback-a\<close> it receives no argument at all.
\<close>

theorem flat_modal_arguments_skip_one:
  "handler quiet sample_client ((incoming ModalSubmit)\<lparr>customId := ''feedback-a-b''\<rparr>) =
     resolves [Call ''feedback.execute'' [''b'']]
   \<and> handler quiet sample_client ((incoming ModalSubmit)\<lparr>customId := ''feedback-a''\<rparr>) =
     resolves [Call ''feedback.execute'' []]"
  by (simp add: handler_def handle_component_def incoming_def sample_client_def feedback_def
      quiet_def fresh_def at_def map_get_arg_def try_log_def)

text \<open>
  Where C5 as stated fails. An autocomplete interaction for a command name that is not
  registered: the handler returns having responded nothing.
\<close>

theorem autocomplete_unanswered_counterexample:
  "handler quiet sample_client
     ((incoming Autocomplete)\<lparr>commandName := ''pong'', getSubcommand := Some ''sub1''\<rparr>) =
     resolves []"
  by (simp add: handler_def handle_autocomplete_def incoming_def sample_client_def)

text \<open>
  C5, as the code has it by design. An autocomplete interaction for a command name
  that is not registered gets no response. For a registered subcommand index and an
  interaction that names a subcommand, the handler looks the subcommand up, inside the
  named group when the interaction names one, and calls the autocomplete listener
  attached to it, logging what it throws; whenever that path yields no listener, the
  handler responds with the one entry \<open>ERROR\<close> / \<open>autocompleteNotFound\<close>.
\<close>

theorem autocomplete_resolution:
  assumes "kind i = Autocomplete"
  shows
    "(map_get (commands client) (commandName i) = None \<longrightarrow> handler run client i = resolves [])
     \<and> (map_get (commands client) (commandName i) = Some (SubcommandIndexData index) \<and>
        getSubcommand i = Some s \<and> s \<noteq> [] \<and> falsy (getSubcommandGroup i) \<and>
        opt_get (subcommands index) (Some s) = Some sub \<and> autocomplete sub = Some h \<longrightarrow>
        handler run client i =
          resolves (Call h [] # (case thrown (run h []) of None \<Rightarrow> [] | Some e \<Rightarrow> [LogError e])))
     \<and> (map_get (commands client) (commandName i) = Some (SubcommandIndexData index) \<and>
        getSubcommand i = Some s \<and> s \<noteq> [] \<and> getSubcommandGroup i = Some g \<and> g \<noteq> [] \<and>
        opt_get (subcommandGroups index) (Some g) = Some grp \<and>
        opt_get (group_subcommands grp) (Some s) = Some sub \<and> autocomplete sub = Some h \<longrightarrow>
        handler run client i =
          resolves (Call h [] # (case thrown (run h []) of None \<Rightarrow> [] | Some e \<Rightarrow> [LogError e])))
     \<and> (map_get (commands client) (commandName i) = Some command \<and>
        getSubcommand i = Some s \<and> s \<noteq> [] \<and>
        find_autocomplete command (getSubcommand i) (getSubcommandGroup i) = None \<longrightarrow>
        handler run client i = resolves [Respond [(''ERROR'', ''autocompleteNotFound'')]])"
proof -
  have h: "handler run client i = handle_autocomplete run client i"
    using assms by (rule handler_autocomplete)
  show ?thesis
    unfolding h
  proof (intro conjI impI; (elim conjE)?)
    assume "map_get (commands client) (commandName i) = Some command"
      and "find_autocomplete command (getSubcommand i) (getSubcommandGroup i) = None"
    then show "handle_autocomplete run client i =
        resolves [Respond [(''ERROR'', ''autocompleteNotFound'')]]"
      by (simp add: handle_autocomplete_def)
  qed (simp_all add: handle_autocomplete_def find_autocomplete_def falsy_def try_log_def)
qed

theorem autocomplete_resolution_witness:
  "handler quiet sample_client
     ((incoming Autocomplete)\<lparr>commandName := ''pong'', getSubcommand := Some ''sub1''\<rparr>) =
     resolves []
   \<and> handler quiet sample_client
     ((incoming Autocomplete)\<lparr>commandName := ''cmdA'', getSubcommand := Some ''sub1''\<rparr>) =
     resolves [Call ''sub1.autocomplete'' []]
   \<and> handler throws sample_client
     ((incoming Autocomplete)
        \<lparr>commandName := ''cmdA'', getSubcommand := Some ''sub2'', getSubcommandGroup := Some ''grp1''\<rparr>) =
     resolves [Call ''sub2.autocomplete'' [], LogError (Thrown ''boom'')]
   \<and> handler quiet sample_client
     ((incoming Autocomplete)\<lparr>commandName := ''cmdA'', getSubcommand := Some ''sub9''\<rparr>) =
     resolves [Respond [(''ERROR'', ''autocompleteNotFound'')]]"
  using
    autocomplete_resolution
      [where i = "(incoming Autocomplete)\<lparr>commandName := ''pong'', getSubcommand := Some ''sub1''\<rparr>"
        and client = sample_client and run = quiet]
    autocomplete_resolution
      [where i = "(incoming Autocomplete)\<lparr>commandName := ''cmdA'', getSubcommand := Some ''sub1''\<rparr>"
        and client = sample_client and run = quiet and index = cmdA and s = "''sub1''"
        and sub = sub1 and h = "''sub1.autocomplete''"]
    autocomplete_resolution
      [where i = "(incoming Autocomplete)
          \<lparr>commandName := ''cmdA'', getSubcommand := Some ''sub2'', getSubcommandGroup := Some ''grp1''\<rparr>"
        and client = sample_client and run = throws and index = cmdA and s = "''sub2''"
        and g = "''grp1''" and grp = grp1 and sub = sub2 and h = "''sub2.autocomplete''"]
    autocomplete_resolution
      [where i = "(incoming Autocomplete)\<lparr>commandName := ''cmdA'', getSubcommand := Some ''sub9''\<rparr>"
        and client = sample_client and run = quiet and command = "SubcommandIndexData cmdA"
        and s = "''sub9''"]
  by (simp add: incoming_def sample_client_def cmdA_def grp1_def sub1_def sub2_def quiet_def
      throws_def fresh_def opt_get_def map_get_arg_def find_autocomplete_def falsy_def)

text \<open>
  The \<open>autocomplete\<close> listener a top-level \<open>CommandData\<close> declares is never consulted:
  the branch reads the registry entry as a subcommand index and looks for a listener only
  when the interaction names a subcommand. For \<open>ping\<close>, which has one, the handler
  responds with the placeholder entry.
\<close>

lemma top_level_autocomplete_not_reached:
  "handler quiet sample_client ((incoming Autocomplete)\<lparr>commandName := ''ping''\<rparr>) =
     resolves [Respond [(''ERROR'', ''autocompleteNotFound'')]]"
  by (simp add: handler_def handle_autocomplete_def incoming_def sample_client_def
      find_autocomplete_def falsy_def)

text \<open>
  C6. The chat-input command \<open>ping\<close>, whose listener replies to the interaction and
  then throws. The handler catches the error and logs it, and \<open>reply\<close> finds the
  interaction replied: it calls \<open>interaction.editReply\<close>, which overwrites the response
  the listener sent; no follow-up message is sent. When the listener throws without
  having replied or deferred, the handler sends the ephemeral reply. In both cases the
  handler resolves.
\<close>

theorem executor_error_edits_reply:
  "handler replies_then_throws sample_client ((incoming ChatInputCommand)\<lparr>commandName := ''ping''\<rparr>) =
     resolves
       [Call ''ping.execute'' [], LogError (Thrown ''boom''),
        EditReply ''There was an error while executing this command!'' True]
   \<and> handler throws sample_client ((incoming ChatInputCommand)\<lparr>commandName := ''ping''\<rparr>) =
     resolves
       [Call ''ping.execute'' [], LogError (Thrown ''boom''),
        Reply ''There was an error while executing this command!'' True]"
  by (simp add: handler_def handle_chat_input_def incoming_def sample_client_def ping_def
      execute_command_def try_reply_def reply_def replies_then_throws_def throws_def
      command_failed_def)

section \<open>Login and the registration signature\<close>

lemma wrap_starts: "wrap opening closing k items = opening # tl (wrap opening closing k items)"
  by (simp add: wrap_def)

lemma parsedString_starts: "\<exists>r. parsedString all = CHR ''['' # r"
proof -
  have "stringify all = CHR ''['' # tl (stringify all)"
    unfolding stringify_def serialize.simps by (rule wrap_starts)
  then obtain r where r: "stringify all = CHR ''['' # r" ..
  have "unquote_keys (CHR ''['' # r) = CHR ''['' # unquote_keys r"
    by simp
  then show ?thesis
    by (simp add: parsedString_def r strip_white_space_def white_space_def)
qed

lemma parsedString_not_empty: "parsedString all \<noteq> []"
  using parsedString_starts [of all] by auto

lemma signature_not_empty: "signature env c \<noteq> []"
  by (simp add: signature_def parsedString_not_empty)

lemma signature_store: "signature env (c\<lparr>store := st\<rparr>) = signature env c"
  by (simp add: signature_def exported_def)

lemma signature_store_set: "signature env (store_set k v c) = signature env c"
  by (simp add: store_set_def signature_store)

lemma signature_toJSON:
  "toJSON env' = toJSON env \<Longrightarrow> signature env' c = signature env c"
  by (simp add: signature_def exported_def)

lemma rest_calls_append: "rest_calls (xs @ ys) = rest_calls xs @ rest_calls ys"
  by (induction xs rule: rest_calls.induct) simp_all

lemma register_current:
  "store_get c registered_applications [] = signature env c \<Longrightarrow>
   outcome (register env t i c) = Returned t \<and> client_after (register env t i c) = c \<and>
   rest_calls (login_effects (register env t i c)) = []"
  using signature_not_empty [of env c]
  by (simp add: register_def Let_def signature_def rest_calls_append)

lemma register_stale:
  "store_get c registered_applications [] \<noteq> signature env c \<Longrightarrow>
   \<exists>r. rest_calls (login_effects (register env t i c)) = [(r, exported env c)] \<and>
       (case rest_put env r (exported env c) of
          None \<Rightarrow> outcome (register env t i c) = Returned t \<and>
                  client_after (register env t i c) =
                    store_set registered_applications (signature env c) c
        | Some e \<Rightarrow> outcome (register env t i c) = ProcessExit 1 \<and>
                    client_after (register env t i c) = c \<and>
                    last (login_effects (register env t i c)) = Logger (ErrorValue e))"
  by (simp add: register_def Let_def signature_def rest_calls_append split: option.split)

lemma store_get_store_set: "store_get (store_set k v c) k d = v"
  by (simp add: store_get_def store_set_def)

lemma register_returned:
  assumes "outcome (register env t i c) = Returned t'"
  shows "store_get (client_after (register env t i c)) registered_applications [] = signature env c
    \<and> signature env (client_after (register env t i c)) = signature env c"
proof (cases "store_get c registered_applications [] = signature env c")
  case True
  then show ?thesis using register_current [OF True, of t i] by simp
next
  case False
  from register_stale [OF False, of t i] obtain r where
    r: "(case rest_put env r (exported env c) of
          None \<Rightarrow> outcome (register env t i c) = Returned t \<and>
                  client_after (register env t i c) =
                    store_set registered_applications (signature env c) c
        | Some e \<Rightarrow> outcome (register env t i c) = ProcessExit 1 \<and>
                    client_after (register env t i c) = c \<and>
                    last (login_effects (register env t i c)) = Logger (ErrorValue e))"
    by blast
  show ?thesis
  proof (cases "rest_put env r (exported env c)")
    case None
    with r show ?thesis by (simp add: store_get_store_set signature_store_set)
  next
    case (Some e)
    with r assms show ?thesis by simp
  qed
qed

lemma login_unfold:
  "login env token c =
     (case super_login env (resolve_token env token) of
        Some e \<Rightarrow> \<lparr>outcome = LoginRejected e, client_after = c, login_effects = []\<rparr>
      | None \<Rightarrow>
          (case resolve_token env token of
             None \<Rightarrow> no_token_or_client_id c
           | Some t \<Rightarrow>
               if t = [] then no_token_or_client_id c
               else
                 (case resolve_client_id env of
                    None \<Rightarrow> no_token_or_client_id c
                  | Some i \<Rightarrow> if i = [] then no_token_or_client_id c else register env t i c)))"
  by (simp add: login_def Let_def falsy_def split: option.split)

lemma login_returned:
  assumes "outcome (login env token c) = Returned t"
  shows "\<exists>t' i. login env token c = register env t' i c"
  using assms
  by (auto simp add: login_unfold no_token_or_client_id_def split: option.splits if_splits)

lemma login_current:
  assumes "store_get c registered_applications [] = signature env c"
  shows "rest_calls (login_effects (login env token c)) = []"
  using register_current [OF assms]
  by (simp add: login_unfold no_token_or_client_id_def split: option.split)

lemma register_at_most_once: "length (rest_calls (login_effects (register env t i c))) \<le> 1"
proof (cases "store_get c registered_applications [] = signature env c")
  case True
  then show ?thesis using register_current [OF True, of t i] by simp
next
  case False
  from register_stale [OF False, of t i] show ?thesis by auto
qed

lemma login_at_most_once: "length (rest_calls (login_effects (login env token c))) \<le> 1"
  using register_at_most_once [of env _ _ c]
  by (simp add: login_unfold no_token_or_client_id_def split: option.split)

lemma signature_registries:
  "commands c' = commands c \<Longrightarrow> contextMenus_User c' = contextMenus_User c \<Longrightarrow>
   contextMenus_Message c' = contextMenus_Message c \<Longrightarrow> signature env c' = signature env c"
  by (simp add: signature_def exported_def)

text \<open>
  C1. The signature is computed from the three registries alone, so two clients with
  the same registries have the same signature, and it is never the empty string (it
  starts with the opening bracket of the array). When the store holds the computed
  signature under the reserved key, \<open>login\<close> makes no call of the REST transport. A
  login calls the transport at most once. A login that returns leaves the computed
  signature in the store under the reserved key; a second login on the client it leaves,
  in any environment with the same \<open>toJSON\<close>, whatever the token and the outcome of the
  external calls, makes no call of the transport.
\<close>

theorem registration_only_when_signature_changed:
  "(commands c' = commands c \<and> contextMenus_User c' = contextMenus_User c \<and>
      contextMenus_Message c' = contextMenus_Message c \<longrightarrow> signature env c' = signature env c)
   \<and> signature env c \<noteq> []
   \<and> (store_get c registered_applications [] = signature env c \<longrightarrow>
        rest_calls (login_effects (login env token c)) = [])
   \<and> length (rest_calls (login_effects (login env token c))) \<le> 1
   \<and> (outcome (login env token c) = Returned t \<longrightarrow>
        store_get (client_after (login env token c)) registered_applications [] = signature env c)
   \<and> (outcome (login env token c) = Returned t \<and> toJSON env' = toJSON env \<longrightarrow>
        rest_calls (login_effects (login env' token' (client_after (login env token c)))) = [])"
proof (intro conjI impI; (elim conjE)?)
  assume "commands c' = commands c" and "contextMenus_User c' = contextMenus_User c"
    and "contextMenus_Message c' = contextMenus_Message c"
  then show "signature env c' = signature env c" by (rule signature_registries)
next
  show "signature env c \<noteq> []" by (rule signature_not_empty)
next
  assume "store_get c registered_applications [] = signature env c"
  then show "rest_calls (login_effects (login env token c)) = []" by (rule login_current)
next
  show "length (rest_calls (login_effects (login env token c))) \<le> 1"
    by (rule login_at_most_once)
next
  assume "outcome (login env token c) = Returned t"
  then obtain t' i where l: "login env token c = register env t' i c"
    using login_returned by blast
  with \<open>outcome (login env token c) = Returned t\<close>
  show "store_get (client_after (login env token c)) registered_applications [] = signature env c"
    using register_returned [of env t' i c t] by simp
next
  assume r: "outcome (login env token c) = Returned t" and j: "toJSON env' = toJSON env"
  then obtain t' i where l: "login env token c = register env t' i c"
    using login_returned by blast
  from r l have rr: "outcome (register env t' i c) = Returned t" by simp
  have "signature env' (client_after (register env t' i c)) =
        signature env (client_after (register env t' i c))"
    using j by (rule signature_toJSON)
  also have "\<dots> = signature env c"
    using register_returned [OF rr] by simp
  finally have "store_get (client_after (login env token c)) registered_applications [] =
        signature env' (client_after (login env token c))"
    using register_returned [OF rr] l by simp
  then show "rest_calls (login_effects (login env' token' (client_after (login env token c)))) = []"
    by (rule login_current)
qed

lemma login_configured: "login configured None sample_client = register configured ''token'' ''1234'' sample_client"
  by (simp add: login_unfold resolve_token_def resolve_client_id_def configured_def)

lemma store_sample_client: "store_get sample_client registered_applications [] = []"
  by (simp add: store_get_def sample_client_def)

lemma register_configured: "register configured ''token'' ''1234'' sample_client =
   \<lparr>outcome = Returned ''token'',
    client_after = store_set registered_applications (signature configured sample_client) sample_client,
    login_effects =
      [Logger (Debug ''Checking if interactions need to be registered...''),
       Logger (Info ''Registering interactions...''),
       RestPut (ApplicationCommands ''1234'') (exported configured sample_client),
       Logger (Success ''Interactions have been registered!'')]\<rparr>"
  unfolding register_def Let_def store_sample_client signature_def
  by (simp add: parsedString_not_empty [symmetric] falsy_def configured_def)

theorem registration_only_when_signature_changed_witness:
  "outcome (login configured None sample_client) = Returned ''token''
   \<and> rest_calls (login_effects (login configured None sample_client)) =
       [(ApplicationCommands ''1234'', exported configured sample_client)]
   \<and> store_get (client_after (login configured None sample_client)) registered_applications [] =
       signature configured sample_client
   \<and> rest_calls (login_effects
        (login (configured\<lparr>rest_put := forbidden\<rparr>) (Some ''other'')
           (client_after (login configured None sample_client)))) = []"
  using
    registration_only_when_signature_changed
      [where env = configured and c = sample_client and c' = sample_client and token = None
        and t = "''token''" and env' = "configured\<lparr>rest_put := forbidden\<rparr>" and token' = "Some ''other''"]
  by (simp add: login_configured register_configured)

lemma login_forbidden:
  "login (configured\<lparr>rest_put := forbidden\<rparr>) None sample_client =
     \<lparr>outcome = ProcessExit 1, client_after = sample_client,
      login_effects =
        [Logger (Debug ''Checking if interactions need to be registered...''),
         Logger (Info ''Registering interactions...''),
         RestPut (ApplicationCommands ''1234'')
           (exported (configured\<lparr>rest_put := forbidden\<rparr>) sample_client),
         Logger (ErrorValue (Thrown ''403''))]\<rparr>"
  unfolding login_unfold register_def Let_def store_sample_client
  by (simp add: parsedString_not_empty [symmetric] falsy_def configured_def forbidden_def
      resolve_token_def resolve_client_id_def)

text \<open>
  C7. A login with no token argument and no \<open>DISCORD_TOKEN\<close>, where the SDK's own
  \<open>login\<close> fails for want of a token: \<open>await super.login(token)\<close> throws before the
  check \<open>if (!token || !clientId)\<close> is reached, so \<open>login\<close> rejects with the SDK's
  error, having logged nothing, and does not exit the process. With a token and no client
  id the check is reached: the message is logged and the process exits with code 1. When
  the REST transport throws, the error is logged last, the process exits with code 1 and
  the client, its store included, is as it was.
\<close>

theorem login_without_token_rejects:
  "login (configured\<lparr>DISCORD_TOKEN := None, super_login := token_invalid\<rparr>) None sample_client =
     \<lparr>outcome = LoginRejected (Thrown ''TokenInvalid''), client_after = sample_client,
      login_effects = []\<rparr>
   \<and> login (configured\<lparr>CLIENT_ID := None, user_id := None, super_login := token_invalid\<rparr>)
       None sample_client =
     \<lparr>outcome = ProcessExit 1, client_after = sample_client,
      login_effects = [Logger (ErrorMessage ''No token or client ID was provided!'')]\<rparr>
   \<and> outcome (login (configured\<lparr>rest_put := forbidden\<rparr>) None sample_client) = ProcessExit 1
   \<and> client_after (login (configured\<lparr>rest_put := forbidden\<rparr>) None sample_client) =
     sample_client
   \<and> last (login_effects (login (configured\<lparr>rest_put := forbidden\<rparr>) None sample_client)) =
     Logger (ErrorValue (Thrown ''403''))"
  by (simp add: login_forbidden)
    (simp add: login_unfold resolve_token_def resolve_client_id_def configured_def
      token_invalid_def falsy_def no_token_or_client_id_def)

text \<open>
  Past the SDK's \<open>login\<close>: if it has resolved and no client id is at hand (\<open>CLIENT_ID\<close>,
  then the logged-in user's id), the message is logged and the process exits with code 1,
  the client untouched. If a call of the REST transport throws, the error is logged
  last, the process exits with code 1 and the client, its store included, is as it was.
  Whenever \<open>login\<close> leaves the client changed at all, it made exactly one call of the
  transport, that call succeeded, and the change is the new signature stored under the
  reserved key.
\<close>

theorem registration_failure_is_fatal:
  "(super_login env (resolve_token env token) = None \<and> falsy (resolve_client_id env) \<longrightarrow>
      login env token c =
        \<lparr>outcome = ProcessExit 1, client_after = c,
         login_effects = [Logger (ErrorMessage ''No token or client ID was provided!'')]\<rparr>)
   \<and> ((r, b) \<in> set (rest_calls (login_effects (login env token c))) \<and>
      rest_put env r b = Some e' \<longrightarrow>
      outcome (login env token c) = ProcessExit 1 \<and> client_after (login env token c) = c \<and>
      last (login_effects (login env token c)) = Logger (ErrorValue e'))
   \<and> (client_after (login env token c) \<noteq> c \<longrightarrow>
      (\<exists>r' b'. rest_calls (login_effects (login env token c)) = [(r', b')] \<and>
               rest_put env r' b' = None) \<and>
      client_after (login env token c) =
        store_set registered_applications (signature env c) c)"
proof -
  have unconfigured: "super_login env (resolve_token env token) = None \<and>
      falsy (resolve_client_id env) \<longrightarrow>
      login env token c =
        \<lparr>outcome = ProcessExit 1, client_after = c,
         login_effects = [Logger (ErrorMessage ''No token or client ID was provided!'')]\<rparr>"
    by (auto simp add: login_unfold falsy_def no_token_or_client_id_def split: option.splits)
  have reg_failed: "(r, b) \<in> set (rest_calls (login_effects (register env t i c))) \<Longrightarrow>
      rest_put env r b = Some e' \<Longrightarrow>
      outcome (register env t i c) = ProcessExit 1 \<and> client_after (register env t i c) = c \<and>
      last (login_effects (register env t i c)) = Logger (ErrorValue e')" for t i
  proof (cases "store_get c registered_applications [] = signature env c")
    case True
    assume "(r, b) \<in> set (rest_calls (login_effects (register env t i c)))"
    then show ?thesis using register_current [OF True, of t i] by simp
  next
    case False
    assume "(r, b) \<in> set (rest_calls (login_effects (register env t i c)))"
      and "rest_put env r b = Some e'"
    with register_stale [OF False, of t i] show ?thesis by auto
  qed
  have no_calls: "rest_calls (login_effects (no_token_or_client_id c)) = []"
    by (simp add: no_token_or_client_id_def)
  have failed: "(r, b) \<in> set (rest_calls (login_effects (login env token c))) \<and>
      rest_put env r b = Some e' \<longrightarrow>
      outcome (login env token c) = ProcessExit 1 \<and> client_after (login env token c) = c \<and>
      last (login_effects (login env token c)) = Logger (ErrorValue e')"
    unfolding login_unfold using reg_failed
    by (simp add: no_calls split: option.split)
  have reg_changed: "client_after (register env t i c) \<noteq> c \<Longrightarrow>
      (\<exists>r' b'. rest_calls (login_effects (register env t i c)) = [(r', b')] \<and>
               rest_put env r' b' = None) \<and>
      client_after (register env t i c) = store_set registered_applications (signature env c) c"
    for t i
  proof (cases "store_get c registered_applications [] = signature env c")
    case True
    assume "client_after (register env t i c) \<noteq> c"
    then show ?thesis using register_current [OF True, of t i] by simp
  next
    case False
    assume "client_after (register env t i c) \<noteq> c"
    with register_stale [OF False, of t i] show ?thesis
      by (auto split: option.splits)
  qed
  have unchanged: "client_after (no_token_or_client_id c) = c"
    by (simp add: no_token_or_client_id_def)
  have changed: "client_after (login env token c) \<noteq> c \<longrightarrow>
      (\<exists>r' b'. rest_calls (login_effects (login env token c)) = [(r', b')] \<and>
               rest_put env r' b' = None) \<and>
      client_after (login env token c) =
        store_set registered_applications (signature env c) c"
    unfolding login_unfold using reg_changed
    by (simp add: unchanged split: option.split)
  show ?thesis
    by (rule conjI [OF unconfigured conjI [OF failed changed]])
qed

theorem registration_failure_is_fatal_witness:
  "login (configured\<lparr>CLIENT_ID := None, user_id := None\<rparr>) None sample_client =
     \<lparr>outcome = ProcessExit 1, client_after = sample_client,
      login_effects = [Logger (ErrorMessage ''No token or client ID was provided!'')]\<rparr>
   \<and> outcome (login (configured\<lparr>rest_put := forbidden\<rparr>) None sample_client) = ProcessExit 1
   \<and> client_after (login (configured\<lparr>rest_put := forbidden\<rparr>) None sample_client) =
     sample_client
   \<and> last (login_effects (login (configured\<lparr>rest_put := forbidden\<rparr>) None sample_client)) =
     Logger (ErrorValue (Thrown ''403''))"
proof -
  have no_client_id:
    "super_login (configured\<lparr>CLIENT_ID := None, user_id := None\<rparr>)
       (resolve_token (configured\<lparr>CLIENT_ID := None, user_id := None\<rparr>) None) = None \<and>
     falsy (resolve_client_id (configured\<lparr>CLIENT_ID := None, user_id := None\<rparr>))"
    by (simp add: configured_def resolve_client_id_def falsy_def)
  have put_throws:
    "(ApplicationCommands ''1234'', exported (configured\<lparr>rest_put := forbidden\<rparr>) sample_client)
       \<in> set (rest_calls (login_effects
             (login (configured\<lparr>rest_put := forbidden\<rparr>) None sample_client))) \<and>
     rest_put (configured\<lparr>rest_put := forbidden\<rparr>) (ApplicationCommands ''1234'')
       (exported (configured\<lparr>rest_put := forbidden\<rparr>) sample_client) = Some (Thrown ''403'')"
    by (simp add: login_forbidden forbidden_def)
  note first = registration_failure_is_fatal
    [where env = "configured\<lparr>CLIENT_ID := None, user_id := None\<rparr>" and token = None
      and c = sample_client, THEN conjunct1, THEN mp, OF no_client_id]
  note second = registration_failure_is_fatal
    [where env = "configured\<lparr>rest_put := forbidden\<rparr>" and token = None and c = sample_client,
      THEN conjunct2, THEN conjunct1, THEN mp, OF put_throws]
  from first second show ?thesis
    by (intro conjI) simp_all
qed

section \<open>Further properties of the handler and the signature\<close>

text \<open>
  The signature of a single schema, computed: the keys are unquoted, the values keep
  their quotes, and all white space is gone.
\<close>

lemma parsedString_example:
  "parsedString [JObject [(''name'', JString ''ping''), (''type'', JNumber 1)]] =
     ''[{name:'' @ [CHR 0x22] @ ''ping'' @ [CHR 0x22] @ '',type:1}]''"
  by code_simp

lemma rejected_resolves: "rejected (resolves es) = None"
  by (simp add: resolves_def)

lemma rejected_run_listener: "rejected (run_listener run h args) = None"
  by (simp add: run_listener_def resolves_def split: option.split)

lemma chat_input_rejected:
  "rejected (handle_chat_input run client i) = Some e \<Longrightarrow>
   handle_chat_input run client i = rejects [] TypeError"
  by (auto simp add: handle_chat_input_def resolves_def rejects_def
      split: option.splits if_splits)

lemma context_menu_rejected:
  "rejected (handle_context_menu run client i) = Some e \<Longrightarrow>
   handle_context_menu run client i = rejects [] TypeError"
  by (auto simp add: handle_context_menu_def resolves_def rejects_def
      split: option.splits if_splits)

lemma autocomplete_rejected: "rejected (handle_autocomplete run client i) = None"
  by (simp add: handle_autocomplete_def resolves_def split: option.split)

lemma component_rejected: "rejected (handle_component run client i) = None"
  by (simp add: handle_component_def Let_def rejected_resolves rejected_run_listener
      split: option.split command.split)

text \<open>
  Whatever the listeners do, the handler rejects in one case only: the TypeError of the
  permission test on an interaction without a member, raised before anything was replied
  or called. An error thrown by a listener never reaches the caller of the handler.
\<close>

theorem handler_rejects_only_before_listeners:
  "rejected (handler run client i) = Some e \<longrightarrow> handler run client i = rejects [] TypeError"
  using chat_input_rejected [of run client i e] context_menu_rejected [of run client i e]
  by (simp add: handler_def autocomplete_rejected component_rejected rejected_resolves)

theorem handler_rejects_only_before_listeners_witness:
  "rejected (handler throws sample_client
      ((incoming UserContextMenuCommand)\<lparr>commandName := ''Report''\<rparr>)) = Some TypeError
   \<and> handler throws sample_client ((incoming UserContextMenuCommand)\<lparr>commandName := ''Report''\<rparr>) =
       rejects [] TypeError"
  using handler_rejects_only_before_listeners
    [where run = throws and client = sample_client
      and i = "(incoming UserContextMenuCommand)\<lparr>commandName := ''Report''\<rparr>" and e = TypeError]
  by (simp add: handler_def handle_context_menu_def incoming_def sample_client_def report_def
      rejects_def)

text \<open>
  A chat-input interaction for a name the command registry does not hold is answered
  with the one ephemeral reply that names it; no listener is called.
\<close>

theorem unknown_command_is_reported:
  "kind i = ChatInputCommand \<and> map_get (commands client) (commandName i) = None \<longrightarrow>
     handler run client i =
       resolves [Reply (''Could not find command **'' @ commandName i @ ''**!'') True]"
  by (simp add: handler_def handle_chat_input_def)

theorem unknown_command_is_reported_witness:
  "handler quiet sample_client ((incoming ChatInputCommand)\<lparr>commandName := ''foo''\<rparr>) =
     resolves [Reply ''Could not find command **foo**!'' True]"
  using unknown_command_is_reported
    [where i = "(incoming ChatInputCommand)\<lparr>commandName := ''foo''\<rparr>"
      and client = sample_client and run = quiet]
  by (simp add: incoming_def sample_client_def)

end
